theory Spec2Isabelle
  imports
    Main
    "HOL-Library.Word"
    "HOL-Library.Multiset"
    "HOL-Library.Char_ord"
    "HOL-Library.List_Lexorder"
begin

unbundle bit_operations_syntax

section \<open>Data model\<close>

text \<open>
  A shallow embedding of the authoritative DNS server library \<^verbatim>\<open>newdns\<close>:
  \<^verbatim>\<open>zone.go\<close> (zone descriptor and its validation), \<^verbatim>\<open>set.go\<close> (record sets and
  their validation) and \<^verbatim>\<open>server.go\<close> (accept filter, query handler, reply writers).

  Go strings are byte strings and compare bytewise; \<open>string\<close> with the lexicographic
  order on \<open>char list\<close> is the same order. \<^verbatim>\<open>time.Duration\<close> is a signed 64-bit count
  of nanoseconds: a \<open>64 word\<close>, compared through \<open>sint\<close> (\<open><s\<close>, \<open>\<le>s\<close>), with \<open>+\<close>
  wrapping as Go's does.
\<close>

type_synonym Duration = "64 word"

definition Second :: Duration where
  "Second = 1000000000"

definition Minute :: Duration where
  "Minute = 60 * Second"

definition Hour :: Duration where
  "Hour = 60 * Minute"

text \<open>
  Go errors are values carrying a message: \<^verbatim>\<open>fmt.Errorf\<close> / \<^verbatim>\<open>errors.Errorf\<close> build one
  from a formatted message, \<^verbatim>\<open>errors.Wrap(err, msg)\<close> prefixes one.
\<close>

datatype error = Errorf string | Wrap error string

fun Error :: "error \<Rightarrow> string" where
  "Error (Errorf m) = m"
| "Error (Wrap e m) = m @ '': '' @ Error e"

text \<open>
  \<^verbatim>\<open>Type\<close> is the record type tag. Its declaration is outside the three source files; the
  handler converts the question's 16-bit \<^verbatim>\<open>Qtype\<close> with \<^verbatim>\<open>Type(question.Qtype)\<close> and
  \<^verbatim>\<open>Set.Validate\<close> prints it with \<^verbatim>\<open>%d\<close>, so it is a 16-bit integer type.
\<close>

type_synonym Type = "16 word"

text \<open>
  Modelled from the spec: the tag constants \<^verbatim>\<open>CNAME\<close>, \<^verbatim>\<open>MX\<close>, \<^verbatim>\<open>TXT\<close> (used by
  \<^verbatim>\<open>set.go\<close>) and \<^verbatim>\<open>TypeA\<close>, \<^verbatim>\<open>TypeAAAA\<close> (used by \<^verbatim>\<open>server.go\<close>) are declared
  outside the source files. The spec enumerates the tags A, AAAA, CNAME, MX, TXT, NS,
  SOA, PTR; they carry the DNS type codes, since a question's type code is converted
  to a tag directly.
\<close>

definition TypeA :: Type where
  "TypeA = 1"

definition TypeAAAA :: Type where
  "TypeAAAA = 28"

definition CNAME :: Type where
  "CNAME = 5"

definition MX :: Type where
  "MX = 15"

definition TXT :: Type where
  "TXT = 16"

text \<open>
  \<^verbatim>\<open>Record\<close>: the struct is declared outside the source files; these are the fields the
  sources read (\<^verbatim>\<open>Address\<close>, \<^verbatim>\<open>Priority\<close> printed with \<^verbatim>\<open>%05d\<close>, \<^verbatim>\<open>Data[0]\<close>).
\<close>

record Record =
  Address :: string
  Priority :: int
  Data :: "string list"

text \<open>\<^verbatim>\<open>type Set struct\<close> of \<^verbatim>\<open>set.go\<close>.\<close>

record Set =
  Name :: string
  Type :: Type
  Records :: "Record list"
  TTL :: Duration

text \<open>
  \<^verbatim>\<open>type Zone struct\<close> of \<^verbatim>\<open>zone.go\<close>. The \<^verbatim>\<open>Handler\<close> callback may be nil.
\<close>

record Zone =
  Name :: string
  MasterNameServer :: string
  AllNameServers :: "string list"
  AdminEmail :: string
  Refresh :: Duration
  Retry :: Duration
  Expire :: Duration
  SOATTL :: Duration
  NSTTL :: Duration
  MinTTL :: Duration
  Handler :: "(Type \<Rightarrow> string \<Rightarrow> error + Record list) option"

text \<open>
  \<^verbatim>\<open>Lookup\<close> returns the resolved sets with their owner names; the handler reads
  \<^verbatim>\<open>res.Name\<close> and \<^verbatim>\<open>res.Set\<close>.
\<close>

record LookupResult =
  Name :: string
  Set :: Set

subsection \<open>Messages of the DNS library\<close>

text \<open>
  The parts of the DNS library's message model that \<^verbatim>\<open>server.go\<close> reads and writes.
  \<^verbatim>\<open>dns.Header\<close> is the wire header handed to the accept filter; \<^verbatim>\<open>dns.Msg\<close> is a decoded
  message; a resource record is its \<^verbatim>\<open>RR_Header\<close> and the fields of its type. The record
  types the handler builds or inspects (\<^verbatim>\<open>NS\<close>, \<^verbatim>\<open>SOA\<close>, \<^verbatim>\<open>MX\<close>, \<^verbatim>\<open>OPT\<close>) have their own
  constructor; \<open>dns_RR\<close> stands for every other type, with its data fields as strings.
\<close>

record dns_Header =
  Id :: "16 word"
  Bits :: "16 word"
  Qdcount :: "16 word"
  Ancount :: "16 word"
  Nscount :: "16 word"
  Arcount :: "16 word"

datatype MsgAcceptAction = MsgAccept | MsgReject | MsgIgnore | MsgRejectNotImplemented

record RR_Header =
  Name :: string
  Rrtype :: "16 word"
  Class :: "16 word"
  Ttl :: "32 word"

datatype RR =
    dns_NS RR_Header string
  | dns_SOA RR_Header string string "32 word" "32 word" "32 word" "32 word" "32 word"
  | dns_MX RR_Header "16 word" string
  | dns_OPT RR_Header
  | dns_RR RR_Header "string list"

fun Header :: "RR \<Rightarrow> RR_Header" where
  "Header (dns_NS h ns) = h"
| "Header (dns_SOA h ns mbox serial refresh retry expire minttl) = h"
| "Header (dns_MX h preference mx) = h"
| "Header (dns_OPT h) = h"
| "Header (dns_RR h rdata) = h"

record Question =
  Name :: string
  Qtype :: "16 word"
  Qclass :: "16 word"

record Msg =
  Id :: "16 word"
  Response :: bool
  Opcode :: int
  Authoritative :: bool
  Truncated :: bool
  RecursionDesired :: bool
  RecursionAvailable :: bool
  Zero :: bool
  AuthenticatedData :: bool
  CheckingDisabled :: bool
  Rcode :: int
  Compress :: bool
  Question :: "Question list"
  Answer :: "RR list"
  Ns :: "RR list"
  Extra :: "RR list"

definition dns_OpcodeQuery :: int where
  "dns_OpcodeQuery = 0"

definition dns_ClassINET :: "16 word" where
  "dns_ClassINET = 1"

definition dns_TypeNS :: "16 word" where
  "dns_TypeNS = 2"

definition dns_TypeSOA :: "16 word" where
  "dns_TypeSOA = 6"

definition dns_TypeOPT :: "16 word" where
  "dns_TypeOPT = 41"

definition dns_TypeANY :: "16 word" where
  "dns_TypeANY = 255"

definition dns_RcodeSuccess :: int where
  "dns_RcodeSuccess = 0"

definition dns_RcodeServerFailure :: int where
  "dns_RcodeServerFailure = 2"

definition dns_RcodeNameError :: int where
  "dns_RcodeNameError = 3"

definition dns_RcodeNotImplemented :: int where
  "dns_RcodeNotImplemented = 4"

definition dns_RcodeRefused :: int where
  "dns_RcodeRefused = 5"

definition dns_RcodeBadVers :: int where
  "dns_RcodeBadVers = 16"

subsection \<open>What lies outside the three source files\<close>

text \<open>
  The sources call functions that are not among them. Functions of this package declared
  in other files: \<^verbatim>\<open>IsDomain\<close>, \<^verbatim>\<open>Type.valid\<close>, \<^verbatim>\<open>Record.Validate\<close>, \<^verbatim>\<open>Zone.Lookup\<close>,
  \<^verbatim>\<open>Set.convert\<close>, \<^verbatim>\<open>transferCase\<close>, \<^verbatim>\<open>InZone\<close>, \<^verbatim>\<open>durationToTime\<close>, \<^verbatim>\<open>emailToDomain\<close>.
  Functions of Go's standard library and of the DNS library: \<^verbatim>\<open>sort.Slice\<close>,
  \<^verbatim>\<open>strings.ToLower\<close>, \<^verbatim>\<open>dns.IsFqdn\<close>, \<^verbatim>\<open>dns.Name.String\<close>, \<^verbatim>\<open>dns.Msg.Len\<close>.
  They are the fields of an environment \<open>E\<close> that every definition below takes as a
  parameter, so that each theorem holds whatever these functions compute.

  \<^verbatim>\<open>Record.Validate\<close> is called on the loop's copy of the record and \<^verbatim>\<open>Zone.Lookup\<close> on the
  validated zone; both are functions of their arguments. Go's multiple results are
  tuples, a nil error is \<open>None\<close>.
\<close>

record Env =
  IsFqdn :: "string \<Rightarrow> bool"
  IsDomain :: "string \<Rightarrow> bool \<Rightarrow> bool"
  valid :: "Type \<Rightarrow> bool"
  Record_Validate :: "Record \<Rightarrow> Type \<Rightarrow> error option"
  sort_Slice :: "(Record \<Rightarrow> Record \<Rightarrow> bool) \<Rightarrow> Record list \<Rightarrow> Record list"
  Lookup :: "Zone \<Rightarrow> string \<Rightarrow> Type list \<Rightarrow> LookupResult list \<times> bool \<times> error option"
  convert :: "Set \<Rightarrow> Zone \<Rightarrow> string \<Rightarrow> RR list"
  transferCase :: "string \<Rightarrow> string \<Rightarrow> string"
  InZone :: "string \<Rightarrow> string \<Rightarrow> bool"
  durationToTime :: "Duration \<Rightarrow> 32 word"
  emailToDomain :: "string \<Rightarrow> string"
  Name_String :: "string \<Rightarrow> string"
  ToLower :: "string \<Rightarrow> string"
  Len :: "Msg \<Rightarrow> int"

text \<open>
  A call that panics returns nothing: \<open>Panics\<close>. \<open>Returns\<close> carries what a call that
  returns leaves behind.
\<close>

datatype 'a outcome = Returns 'a | Panics

section \<open>Zone validation (zone.go)\<close>

text \<open>
  \<^verbatim>\<open>func (z *Zone) Validate() error\<close> works on the zone in place: the result is the
  returned error (\<open>None\<close> for nil) together with the zone as the call leaves it. An
  error raised by the two final checks leaves the defaults applied.

  \<^verbatim>\<open>dns.IsFqdn\<close> belongs to the DNS library the package imports; it is the parameter
  \<open>fqdn\<close> (the handler passes the environment's \<open>IsFqdn\<close>).
\<close>

definition Zone_Validate :: "(string \<Rightarrow> bool) \<Rightarrow> Zone \<Rightarrow> error option \<times> Zone" where
  "Zone_Validate fqdn z =
    (\<comment> \<open>check name\<close>
     if \<not> fqdn (Zone.Name z) then (Some (Errorf ''name not fully qualified''), z)
     \<comment> \<open>check master name server\<close>
     else if \<not> fqdn (MasterNameServer z) then
       (Some (Errorf ''master server not full qualified''), z)
     \<comment> \<open>check name servers\<close>
     else if \<not> list_all fqdn (AllNameServers z) then
       (Some (Errorf ''additional name server not fully qualified''), z)
     else
       let \<comment> \<open>set default admin email\<close>
           z = (if AdminEmail z = '''' then z\<lparr>AdminEmail := ''hostmaster@'' @ Zone.Name z\<rparr> else z);
           \<comment> \<open>set default refresh\<close>
           z = (if Refresh z = 0 then z\<lparr>Refresh := 6 * Hour\<rparr> else z);
           \<comment> \<open>set default retry: the guard reads \<^verbatim>\<open>z.Refresh\<close>\<close>
           z = (if Refresh z = 0 then z\<lparr>Retry := Hour\<rparr> else z);
           \<comment> \<open>set default expire\<close>
           z = (if Expire z = 0 then z\<lparr>Expire := 72 * Hour\<rparr> else z);
           \<comment> \<open>set default SOA TTL\<close>
           z = (if SOATTL z = 0 then z\<lparr>SOATTL := 15 * Minute\<rparr> else z);
           \<comment> \<open>set default NS TTL\<close>
           z = (if NSTTL z = 0 then z\<lparr>NSTTL := 48 * Hour\<rparr> else z);
           \<comment> \<open>set default min TTL\<close>
           z = (if MinTTL z = 0 then z\<lparr>MinTTL := 5 * Minute\<rparr> else z)
       in
         \<comment> \<open>check retry\<close>
         if Refresh z \<le>s Retry z then (Some (Errorf ''retry must be less than refresh''), z)
         \<comment> \<open>check expire\<close>
         else if Expire z <s Refresh z + Retry z then
           (Some (Errorf ''expire must be bigger than the sum of refresh and retry''), z)
         else (None, z))"

section \<open>Set validation (set.go)\<close>

text \<open>
  \<^verbatim>\<open>fmt.Sprintf("%05d", n)\<close>: the decimal digits of \<open>n\<close>, padded with zeros on the left to
  five characters, the sign of a negative number first and counted in the width.
\<close>

fun digits :: "nat \<Rightarrow> string" where
  "digits n =
    (if n < 10 then [char_of (48 + n)] else digits (n div 10) @ [char_of (48 + n mod 10)])"

definition pad0 :: "nat \<Rightarrow> string \<Rightarrow> string" where
  "pad0 w ds = replicate (w - length ds) CHR ''0'' @ ds"

definition Sprintf_05d :: "int \<Rightarrow> string" where
  "Sprintf_05d n =
    (if n < 0 then CHR ''-'' # pad0 4 (digits (nat (- n))) else pad0 5 (digits (nat n)))"

text \<open>
  The comparison function handed to \<^verbatim>\<open>sort.Slice\<close>, on the two records it indexes.
  \<^verbatim>\<open>Data[0]\<close> is \<open>hd\<close>; where that index is out of range \<open>Set_Validate\<close> panics
  before the comparison is used.
\<close>

definition less_Records :: "Type \<Rightarrow> Record \<Rightarrow> Record \<Rightarrow> bool" where
  "less_Records t ri rj =
    (\<comment> \<open>sort by data if TXT\<close>
     if t = TXT then hd (Data ri) < hd (Data rj)
     \<comment> \<open>sort by priority and address if MX\<close>
     else if t = MX then
       Sprintf_05d (Priority ri) @ '' '' @ Address ri < Sprintf_05d (Priority rj) @ '' '' @ Address rj
     \<comment> \<open>otherwise by address\<close>
     else Address ri < Address rj)"

text \<open>The loop over the records: the first error of \<^verbatim>\<open>record.Validate(s.Type)\<close>.\<close>

fun validate_records :: "Env \<Rightarrow> Type \<Rightarrow> Record list \<Rightarrow> error option" where
  "validate_records E t [] = None"
| "validate_records E t (r # rs) =
    (case Record_Validate E r t of
       Some err \<Rightarrow> Some (Wrap err ''invalid record'')
     | None \<Rightarrow> validate_records E t rs)"

text \<open>
  \<^verbatim>\<open>func (s *Set) Validate() error\<close> works on the set in place: a call that returns
  gives the error (\<open>None\<close> for nil) and the set as it leaves it.

  The comparison panics (index out of range) when it reads \<^verbatim>\<open>Data[0]\<close> of a record with
  no data. Sorting a slice of two or more elements compares every element at least
  once, and a slice of fewer than two elements is never compared; so the call panics
  exactly when the set is a TXT set of two or more records one of which has no data
  (a case \<^verbatim>\<open>Record.Validate\<close> is expected to reject before).
\<close>

definition Set_Validate :: "Env \<Rightarrow> Set \<Rightarrow> (error option \<times> Set) outcome" where
  "Set_Validate E s =
    (\<comment> \<open>check name\<close>
     if \<not> IsDomain E (Set.Name s) True then
       Returns (Some (Errorf (''invalid name: '' @ Set.Name s)), s)
     \<comment> \<open>check type\<close>
     else if \<not> valid E (Type s) then
       Returns (Some (Errorf (''invalid type: '' @ digits (unat (Type s)))), s)
     \<comment> \<open>check records\<close>
     else if length (Records s) = 0 then Returns (Some (Errorf ''missing records''), s)
     \<comment> \<open>check CNAME records\<close>
     else if Type s = CNAME \<and> length (Records s) > 1 then
       Returns (Some (Errorf ''multiple CNAME records''), s)
     else
       \<comment> \<open>validate records\<close>
       case validate_records E (Type s) (Records s) of
         Some err \<Rightarrow> Returns (Some err, s)
       | None \<Rightarrow>
           \<comment> \<open>sort records\<close>
           if Type s = TXT \<and> 2 \<le> length (Records s) \<and> (\<exists>r \<in> set (Records s). Data r = [])
           then Panics
           else
             let s = s\<lparr>Records := sort_Slice E (less_Records (Type s)) (Records s)\<rparr>;
                 \<comment> \<open>set default ttl\<close>
                 s = (if TTL s = 0 then s\<lparr>TTL := 5 * Minute\<rparr> else s)
             in Returns (None, s))"

text \<open>
  The key the comparison orders by: \<open>less_Records\<close> compares two records by the strings
  it derives from each.
\<close>

definition sort_key :: "Type \<Rightarrow> Record \<Rightarrow> string" where
  "sort_key t r =
    (if t = TXT then hd (Data r)
     else if t = MX then Sprintf_05d (Priority r) @ '' '' @ Address r
     else Address r)"

text \<open>
  What \<^verbatim>\<open>sort.Slice\<close> guarantees of its result for a comparison \<open>lt\<close>: it is a
  rearrangement of the slice, and no element is less than one before it. The sort is
  not stable: nothing is promised about the order of elements neither of which is less
  than the other.
\<close>

definition sorts_by :: "((Record \<Rightarrow> Record \<Rightarrow> bool) \<Rightarrow> Record list \<Rightarrow> Record list) \<Rightarrow>
    (Record \<Rightarrow> Record \<Rightarrow> bool) \<Rightarrow> bool" where
  "sorts_by srt lt =
    (\<forall>xs. mset (srt lt xs) = mset xs \<and> sorted_wrt (\<lambda>a b. \<not> lt b a) (srt lt xs))"

text \<open>
  Go's \<^verbatim>\<open>sort.Slice\<close> on a short slice (at most 12 elements in the current library) is
  its insertion sort:
  \<^verbatim>\<open>for i := a + 1; i < b; i++ { for j := i; j > a && less(j, j-1); j-- { swap(j, j-1) } }\<close>.
  \<open>insert_left lt x front\<close> is the inner loop: \<open>front\<close> is the sorted part before
  position \<open>i\<close>, last element first, and \<open>x\<close> moves left while it is less than its
  neighbour. It is the sort of the example environment; the theorems take the sort as a
  parameter that keeps the contract above.
\<close>

fun insert_left :: "('a \<Rightarrow> 'a \<Rightarrow> bool) \<Rightarrow> 'a \<Rightarrow> 'a list \<Rightarrow> 'a list" where
  "insert_left lt x [] = [x]"
| "insert_left lt x (y # ys) = (if lt x y then y # insert_left lt x ys else x # y # ys)"

definition insertionSort :: "('a \<Rightarrow> 'a \<Rightarrow> bool) \<Rightarrow> 'a list \<Rightarrow> 'a list" where
  "insertionSort lt xs = rev (foldl (\<lambda>front x. insert_left lt x front) [] xs)"

section \<open>The server (server.go)\<close>

text \<open>
  \<^verbatim>\<open>Config\<close>: the zone resolver \<^verbatim>\<open>Handler\<close> returns a zone (or nil) and an error (or nil).
  The \<^verbatim>\<open>Reporter\<close> callback is kept as the fact that one is configured; its calls are
  recorded in the \<open>Reported\<close> list below.
\<close>

record Config =
  BufferSize :: int
  Handler :: "string \<Rightarrow> Zone option \<times> error option"
  Reporter :: bool

record Server =
  config :: Config

definition NewServer :: "Config \<Rightarrow> Server" where
  "NewServer cfg =
    (\<comment> \<open>set default buffer size\<close>
     let cfg = (if BufferSize cfg \<le> 0 then cfg\<lparr>BufferSize := 1220\<rparr> else cfg)
     in \<lparr> config = cfg \<rparr>)"

text \<open>
  \<^verbatim>\<open>func (s *Server) accept(dh dns.Header) dns.MsgAcceptAction\<close>.
\<close>

definition accept :: "dns_Header \<Rightarrow> MsgAcceptAction" where
  "accept dh =
    (\<comment> \<open>check if query\<close>
     if Bits dh AND push_bit 15 1 \<noteq> 0 then MsgIgnore
     \<comment> \<open>check opcode\<close>
     else if uint (drop_bit 11 (Bits dh)) AND 15 \<noteq> dns_OpcodeQuery then MsgIgnore
     \<comment> \<open>check question count\<close>
     else if Qdcount dh \<noteq> 1 then MsgIgnore
     else MsgAccept)"

subsection \<open>Message functions of the DNS library\<close>

text \<open>
  \<^verbatim>\<open>new(dns.Msg)\<close>, \<^verbatim>\<open>SetReply\<close>, \<^verbatim>\<open>IsEdns0\<close> (the last record of type OPT in the additional
  section), \<^verbatim>\<open>OPT.UDPSize\<close> (the header's class field), \<^verbatim>\<open>OPT.Version\<close> (bits 16 to 23 of
  the header's TTL field) and \<^verbatim>\<open>SetEdns0\<close> (append an OPT record for the root name), as
  the library documents them.
\<close>

definition new_Msg :: Msg where
  "new_Msg =
    \<lparr> Msg.Id = 0, Response = False, Opcode = 0, Authoritative = False, Truncated = False,
      RecursionDesired = False, RecursionAvailable = False, Zero = False,
      AuthenticatedData = False, CheckingDisabled = False, Rcode = 0, Compress = False,
      Question = [], Answer = [], Ns = [], Extra = [] \<rparr>"

definition SetReply :: "Msg \<Rightarrow> Msg \<Rightarrow> Msg" where
  "SetReply m request =
    (let m = m\<lparr>Msg.Id := Msg.Id request, Response := True, Opcode := Opcode request\<rparr>;
         m = (if Opcode m = dns_OpcodeQuery
              then m\<lparr>RecursionDesired := RecursionDesired request,
                     CheckingDisabled := CheckingDisabled request\<rparr>
              else m);
         m = m\<lparr>Rcode := dns_RcodeSuccess\<rparr>
     in if length (Question request) > 0 then m\<lparr>Question := [hd (Question request)]\<rparr> else m)"

definition IsEdns0 :: "Msg \<Rightarrow> RR option" where
  "IsEdns0 m = find (\<lambda>r. Rrtype (Header r) = dns_TypeOPT) (rev (Extra m))"

definition UDPSize :: "RR \<Rightarrow> 16 word" where
  "UDPSize opt = Class (Header opt)"

definition Version :: "RR \<Rightarrow> 8 word" where
  "Version opt = ucast (drop_bit 16 (Ttl (Header opt) AND 0x00FF0000))"

definition SetEdns0 :: "Msg \<Rightarrow> 16 word \<Rightarrow> bool \<Rightarrow> Msg" where
  "SetEdns0 m udpsize do_bit =
    (let h = \<lparr> RR_Header.Name = ''.'', Rrtype = dns_TypeOPT, Class = udpsize,
               Ttl = (if do_bit then 0x8000 else 0) \<rparr>
     in m\<lparr>Extra := Extra m @ [dns_OPT h]\<rparr>)"

subsection \<open>The response writer\<close>

text \<open>
  The state a handler call works on: the connection \<^verbatim>\<open>w\<close> with its network
  (\<^verbatim>\<open>w.RemoteAddr().Network()\<close>), the messages handed to \<^verbatim>\<open>w.WriteMsg\<close> in order, whether
  \<^verbatim>\<open>w.Close\<close> was called, and the calls of the configured reporter (message and
  request). \<open>WriteMsg_error\<close> is the transport's answer to a write: the error
  \<^verbatim>\<open>w.WriteMsg\<close> returns for a message, if any.
\<close>

record ResponseWriter =
  Network :: string
  WriteMsg_error :: "Msg \<Rightarrow> error option"
  Written :: "Msg list"
  Closed :: bool
  Reported :: "(string \<times> Msg) list"

definition WriteMsg :: "ResponseWriter \<Rightarrow> Msg \<Rightarrow> error option \<times> ResponseWriter" where
  "WriteMsg w m = (WriteMsg_error w m, w\<lparr>Written := Written w @ [m]\<rparr>)"

definition Close :: "ResponseWriter \<Rightarrow> ResponseWriter" where
  "Close w = w\<lparr>Closed := True\<rparr>"

definition reportError :: "Server \<Rightarrow> Msg \<Rightarrow> string \<Rightarrow> ResponseWriter \<Rightarrow> ResponseWriter" where
  "reportError s r msg w =
    (if Reporter (config s) then w\<lparr>Reported := Reported w @ [(msg, r)]\<rparr> else w)"

definition writeError :: "ResponseWriter \<Rightarrow> Msg \<Rightarrow> int \<Rightarrow> ResponseWriter" where
  "writeError w rs code =
    (let rs = rs\<lparr>Rcode := code\<rparr>;
         w = snd (WriteMsg w rs)
     in Close w)"

definition writeMessage :: "Env \<Rightarrow> Server \<Rightarrow> ResponseWriter \<Rightarrow> Msg \<Rightarrow> Msg \<Rightarrow> ResponseWriter" where
  "writeMessage E s w rq rs =
    (\<comment> \<open>get buffer size\<close>
     let buffer = (case IsEdns0 rq of Some opt \<Rightarrow> uint (UDPSize opt) | None \<Rightarrow> 512);
         \<comment> \<open>determine if client is using UDP\<close>
         isUDP = (Network w = ''udp'')
     in
       \<comment> \<open>return truncated message if client is using UDP and message is too long\<close>
       if isUDP \<and> Len E rs > buffer then
         writeError w (rs\<lparr>Truncated := True, Answer := [], Ns := [], Extra := []\<rparr>)
           dns_RcodeSuccess
       else
         case WriteMsg w rs of
           (Some err, w) \<Rightarrow> reportError s rq (Error err) (Close w)
         | (None, w) \<Rightarrow> w)"

text \<open>
  The SOA record literal that \<^verbatim>\<open>writeSOAResponse\<close> and \<^verbatim>\<open>writeErrorWithSOA\<close> build, and
  the NS records that the three loops over \<^verbatim>\<open>zone.AllNameServers\<close> build for an owner
  name.
\<close>

definition SOA_record :: "Env \<Rightarrow> Zone \<Rightarrow> RR" where
  "SOA_record E zone =
    dns_SOA
      \<lparr> RR_Header.Name = Zone.Name zone, Rrtype = dns_TypeSOA, Class = dns_ClassINET,
        Ttl = durationToTime E (SOATTL zone) \<rparr>
      (MasterNameServer zone)
      (emailToDomain E (AdminEmail zone))
      1
      (durationToTime E (Refresh zone))
      (durationToTime E (Retry zone))
      (durationToTime E (Expire zone))
      (durationToTime E (MinTTL zone))"

definition NS_records :: "Env \<Rightarrow> Zone \<Rightarrow> string \<Rightarrow> RR list" where
  "NS_records E zone owner =
    map (\<lambda>ns. dns_NS
           \<lparr> RR_Header.Name = owner, Rrtype = dns_TypeNS, Class = dns_ClassINET,
             Ttl = durationToTime E (NSTTL zone) \<rparr> ns)
        (AllNameServers zone)"

definition writeSOAResponse :: "Env \<Rightarrow> Server \<Rightarrow> ResponseWriter \<Rightarrow> Msg \<Rightarrow> Msg \<Rightarrow> Zone \<Rightarrow>
    ResponseWriter" where
  "writeSOAResponse E s w rq rs zone =
    (\<comment> \<open>add soa record\<close>
     let rs = rs\<lparr>Answer := Answer rs @ [SOA_record E zone]\<rparr>;
         \<comment> \<open>add ns records\<close>
         rs = rs\<lparr>Ns := Ns rs @ NS_records E zone (Zone.Name zone)\<rparr>
     in writeMessage E s w rq rs)"

definition writeNSResponse :: "Env \<Rightarrow> Server \<Rightarrow> ResponseWriter \<Rightarrow> Msg \<Rightarrow> Msg \<Rightarrow> Zone \<Rightarrow>
    ResponseWriter" where
  "writeNSResponse E s w rq rs zone =
    (\<comment> \<open>add ns records\<close>
     let rs = rs\<lparr>Answer := Answer rs @ NS_records E zone (Zone.Name zone)\<rparr>
     in writeMessage E s w rq rs)"

definition writeErrorWithSOA :: "Env \<Rightarrow> Server \<Rightarrow> ResponseWriter \<Rightarrow> Msg \<Rightarrow> Msg \<Rightarrow> Zone \<Rightarrow> int \<Rightarrow>
    ResponseWriter" where
  "writeErrorWithSOA E s w rq rs zone code =
    (\<comment> \<open>set code\<close>
     let rs = rs\<lparr>Rcode := code\<rparr>;
         \<comment> \<open>add soa record\<close>
         rs = rs\<lparr>Ns := Ns rs @ [SOA_record E zone]\<rparr>
     in writeMessage E s w rq rs)"

subsection \<open>The query handler\<close>

text \<open>
  The records a list of results is converted to, with the owner names in the case of
  the question: \<^verbatim>\<open>res.Set.convert(zone, transferCase(question.Name, res.Name))\<close> for each
  result, appended in order.
\<close>

definition convert_results :: "Env \<Rightarrow> Zone \<Rightarrow> string \<Rightarrow> LookupResult list \<Rightarrow> RR list" where
  "convert_results E zone qname result =
    concat (map (\<lambda>res. convert E (Set res) zone (transferCase E qname (LookupResult.Name res)))
      result)"

text \<open>
  The loop \<^verbatim>\<open>check answers\<close>: for each MX answer whose target is in the zone, look up the
  target's A and AAAA sets and append them to the additional section. It stops at the
  first lookup error, with the additional section as built so far.
\<close>

fun check_answers :: "Env \<Rightarrow> Zone \<Rightarrow> string \<Rightarrow> RR list \<Rightarrow> RR list \<Rightarrow> RR list \<times> error option" where
  "check_answers E zone qname [] extra = (extra, None)"
| "check_answers E zone qname (dns_MX h preference mx # answers) extra =
    (\<comment> \<open>lookup internal MX target A and AAAA records\<close>
     if InZone E (Zone.Name zone) mx then
       (case Lookup E zone mx [TypeA, TypeAAAA] of
          (result, avl, Some err) \<Rightarrow> (extra, Some err)
        | (result, avl, None) \<Rightarrow>
            \<comment> \<open>add results to extra\<close>
            check_answers E zone qname answers (extra @ convert_results E zone qname result))
     else check_answers E zone qname answers extra)"
| "check_answers E zone qname (answer # answers) extra =
    check_answers E zone qname answers extra"

text \<open>
  \<^verbatim>\<open>func (s *Server) handler(w dns.ResponseWriter, rq *dns.Msg)\<close>. \<^verbatim>\<open>rq.Question[0]\<close>
  panics on a request without a question. The zone the resolver returns is validated in
  place, so everything after the validation reads the zone with its defaults applied.
\<close>

definition handler :: "Env \<Rightarrow> Server \<Rightarrow> ResponseWriter \<Rightarrow> Msg \<Rightarrow> ResponseWriter outcome" where
  "handler E s w rq =
    (\<comment> \<open>prepare response\<close>
     let rs = SetReply new_Msg rq;
         \<comment> \<open>always compress responses\<close>
         rs = rs\<lparr>Compress := True\<rparr>;
         \<comment> \<open>set flag\<close>
         rs = rs\<lparr>Authoritative := True\<rparr>;
         \<comment> \<open>check edns: use edns in reply\<close>
         rs = (case IsEdns0 rq of
                 Some opt \<Rightarrow> SetEdns0 rs (word_of_int (BufferSize (config s))) False
               | None \<Rightarrow> rs)
     in
       \<comment> \<open>check version\<close>
       if (case IsEdns0 rq of Some opt \<Rightarrow> Version opt \<noteq> 0 | None \<Rightarrow> False) then
         Returns (writeError w rs dns_RcodeBadVers)
       else
         \<comment> \<open>get question\<close>
         case Question rq of
           [] \<Rightarrow> Panics
         | question # other \<Rightarrow>
             \<comment> \<open>check class: leave connection hanging\<close>
             if Qclass question \<noteq> dns_ClassINET then Returns w
             \<comment> \<open>check any type\<close>
             else if Qtype question = dns_TypeANY then
               Returns (writeError w rs dns_RcodeNotImplemented)
             else
               \<comment> \<open>get name\<close>
               let name = ToLower E (Name_String E (Question.Name question)) in
               \<comment> \<open>get zone\<close>
               (case Handler (config s) name of
                 (z, Some err) \<Rightarrow>
                   Returns (reportError s rq (Error err)
                     (writeError w rs dns_RcodeServerFailure))
               \<comment> \<open>check zone\<close>
               | (None, None) \<Rightarrow>
                   Returns (writeError w (rs\<lparr>Authoritative := False\<rparr>) dns_RcodeRefused)
               | (Some zone, None) \<Rightarrow>
                   \<comment> \<open>validate zone\<close>
                   (case Zone_Validate (IsFqdn E) zone of
                      (Some err, zone) \<Rightarrow>
                        Returns (reportError s rq (Error err)
                          (writeError w rs dns_RcodeServerFailure))
                    | (None, zone) \<Rightarrow>
                        \<comment> \<open>answer SOA directly\<close>
                        if Qtype question = dns_TypeSOA \<and> name = Zone.Name zone then
                          Returns (writeSOAResponse E s w rq rs zone)
                        \<comment> \<open>answer NS directly\<close>
                        else if Qtype question = dns_TypeNS \<and> name = Zone.Name zone then
                          Returns (writeNSResponse E s w rq rs zone)
                        \<comment> \<open>return error if type is not supported\<close>
                        else if \<not> valid E (Qtype question) then
                          Returns (writeErrorWithSOA E s w rq rs zone dns_RcodeNameError)
                        else
                          \<comment> \<open>lookup main record\<close>
                          (case Lookup E zone name [Qtype question] of
                             (result, avl, Some err) \<Rightarrow>
                               Returns (reportError s rq (Error err)
                                 (writeError w rs dns_RcodeServerFailure))
                           | (result, avl, None) \<Rightarrow>
                               \<comment> \<open>check result\<close>
                               if length result = 0 then
                                 (\<comment> \<open>write SOA with success code if sets are available\<close>
                                  if avl then
                                    Returns (writeErrorWithSOA E s w rq rs zone dns_RcodeSuccess)
                                  \<comment> \<open>otherwise return name error\<close>
                                  else
                                    Returns (writeErrorWithSOA E s w rq rs zone
                                      dns_RcodeNameError))
                               else
                                 \<comment> \<open>set answer\<close>
                                 let rs = rs\<lparr>Answer := Answer rs @
                                            convert_results E zone (Question.Name question) result\<rparr>
                                 in
                                 \<comment> \<open>check answers\<close>
                                 (case check_answers E zone (Question.Name question)
                                         (Answer rs) (Extra rs) of
                                    (extra, Some err) \<Rightarrow>
                                      Returns (reportError s rq (Error err)
                                        (writeError w (rs\<lparr>Extra := extra\<rparr>)
                                           dns_RcodeServerFailure))
                                  | (extra, None) \<Rightarrow>
                                      let rs = rs\<lparr>Extra := extra\<rparr>;
                                          \<comment> \<open>add ns records\<close>
                                          rs = rs\<lparr>Ns := Ns rs @ NS_records E zone
                                                 (transferCase E (Question.Name question)
                                                    (Zone.Name zone))\<rparr>
                                      in
                                      \<comment> \<open>write message\<close>
                                      Returns (writeMessage E s w rq rs))))))"

text \<open>
  The reply as \<open>handler\<close> has prepared it when it reads the question: the result of its
  statements from \<^verbatim>\<open>prepare response\<close> to \<^verbatim>\<open>use edns in reply\<close>.
\<close>

definition prepared_reply :: "Server \<Rightarrow> Msg \<Rightarrow> Msg" where
  "prepared_reply s rq =
    (let rs = (SetReply new_Msg rq)\<lparr>Compress := True, Authoritative := True\<rparr>
     in case IsEdns0 rq of
          Some opt \<Rightarrow> SetEdns0 rs (word_of_int (BufferSize (config s))) False
        | None \<Rightarrow> rs)"

text \<open>
  The buffer size \<open>writeMessage\<close> allows a UDP reply, in the words of the specification:
  the UDP size of the request's OPT record if it carries one, else 512 octets.
\<close>

definition negotiated_buffer :: "Msg \<Rightarrow> int" where
  "negotiated_buffer rq =
    (if list_ex (\<lambda>r. Rrtype (Header r) = dns_TypeOPT) (Extra rq)
     then uint (Class (Header (last (filter (\<lambda>r. Rrtype (Header r) = dns_TypeOPT) (Extra rq)))))
     else 512)"

text \<open>
  The header fields the accept filter is specified by: the response bit QR is the top
  bit of the header's flag word, the opcode the four bits below it.
\<close>

definition header_QR :: "dns_Header \<Rightarrow> bool" where
  "header_QR dh = bit (Bits dh) 15"

definition header_Opcode :: "dns_Header \<Rightarrow> int" where
  "header_Opcode dh = uint (Bits dh) div 2 ^ 11 mod 2 ^ 4"



section \<open>An environment for the examples\<close>

text \<open>
  The theorems below hold for every environment. To evaluate the definitions on
  concrete inputs, this section fixes one: \<open>example_Env\<close>. Its fields are small
  executable stand-ins for the functions outside the source files, following the
  library documentation or the specification.
\<close>

text \<open>
  \<^verbatim>\<open>dns.IsFqdn\<close> in its plain form: a non-empty name whose last byte is the dot. (The
  library also asks that the dot is not escaped by a backslash before it; the names of
  the examples have none.)
\<close>

definition dns_IsFqdn :: "string \<Rightarrow> bool" where
  "dns_IsFqdn s = (s \<noteq> [] \<and> last s = CHR ''.'')"

fun split_on :: "char \<Rightarrow> string \<Rightarrow> string list" where
  "split_on sep [] = [[]]"
| "split_on sep (c # cs) =
    (if c = sep then [] # split_on sep cs
     else (case split_on sep cs of l # ls \<Rightarrow> (c # l) # ls | [] \<Rightarrow> [[c]]))"

text \<open>
  Modelled from the spec: \<^verbatim>\<open>IsDomain\<close> is declared outside the source files. It is true
  iff the name has at most 253 octets, each label has 1 to 63 octets and, when \<open>fqdn\<close>
  is asked for, the name ends with the root separator.
\<close>

definition spec_IsDomain :: "string \<Rightarrow> bool \<Rightarrow> bool" where
  "spec_IsDomain s fqdn =
    (s \<noteq> [] \<and>
     (let body = (if last s = CHR ''.'' then butlast s else s)
      in length body \<le> 253 \<and>
         list_all (\<lambda>l. 1 \<le> length l \<and> length l \<le> 63) (split_on CHR ''.'' body)) \<and>
     (if fqdn then last s = CHR ''.'' else True))"

text \<open>
  Modelled from the spec: \<^verbatim>\<open>Type.valid\<close> is declared outside the source files. The valid
  tags are the enumerated ones: A, NS, CNAME, SOA, PTR, MX, TXT, AAAA.
\<close>

definition spec_valid :: "Type \<Rightarrow> bool" where
  "spec_valid t = (t \<in> set [1, 2, 5, 6, 12, 15, 16, 28])"

definition is_decimal :: "string \<Rightarrow> bool" where
  "is_decimal ds = (ds \<noteq> [] \<and> list_all (\<lambda>c. CHR ''0'' \<le> c \<and> c \<le> CHR ''9'') ds)"

definition decimal_value :: "string \<Rightarrow> nat" where
  "decimal_value ds = foldl (\<lambda>n c. 10 * n + (of_char c - 48)) 0 ds"

definition is_IPv4 :: "string \<Rightarrow> bool" where
  "is_IPv4 a =
    (let parts = split_on CHR ''.'' a
     in length parts = 4 \<and>
        list_all (\<lambda>p. is_decimal p \<and> length p \<le> 3 \<and> decimal_value p \<le> 255) parts)"

definition is_hex_group :: "string \<Rightarrow> bool" where
  "is_hex_group g =
    (1 \<le> length g \<and> length g \<le> 4 \<and>
     list_all (\<lambda>c. (CHR ''0'' \<le> c \<and> c \<le> CHR ''9'') \<or> (CHR ''a'' \<le> c \<and> c \<le> CHR ''f'')
                  \<or> (CHR ''A'' \<le> c \<and> c \<le> CHR ''F'')) g)"

definition is_IPv6 :: "string \<Rightarrow> bool" where
  "is_IPv6 a =
    (let groups = split_on CHR '':'' a
     in length groups = 8 \<and> list_all is_hex_group groups)"

text \<open>
  Modelled from the spec: \<^verbatim>\<open>Record.Validate\<close> is declared outside the source files. Per
  type: A needs an IPv4 literal, AAAA an IPv6 literal (this stand-in knows the full
  eight-group form only), CNAME, NS and PTR a fully qualified name, MX a fully
  qualified name and a priority within 0 to 65535, TXT at least one chunk and each
  chunk of 1 to 255 octets; SOA records are rejected.
\<close>

definition spec_Record_Validate :: "Record \<Rightarrow> Type \<Rightarrow> error option" where
  "spec_Record_Validate r t =
    (if t = 1 then
       (if is_IPv4 (Address r) then None else Some (Errorf ''invalid IPv4 address''))
     else if t = 28 then
       (if is_IPv6 (Address r) then None else Some (Errorf ''invalid IPv6 address''))
     else if t = 5 \<or> t = 2 \<or> t = 12 then
       (if spec_IsDomain (Address r) True then None else Some (Errorf ''invalid domain name''))
     else if t = 15 then
       (if \<not> spec_IsDomain (Address r) True then Some (Errorf ''invalid domain name'')
        else if Priority r < 0 \<or> 65535 < Priority r then Some (Errorf ''invalid priority'')
        else None)
     else if t = 16 then
       (if Data r = [] then Some (Errorf ''missing data'')
        else if list_all (\<lambda>d. 1 \<le> length d \<and> length d \<le> 255) (Data r) then None
        else Some (Errorf ''invalid data''))
     else Some (Errorf ''unsupported type''))"

definition ascii_lower :: "string \<Rightarrow> string" where
  "ascii_lower str =
    map (\<lambda>c. if CHR ''A'' \<le> c \<and> c \<le> CHR ''Z'' then char_of (of_char c + (32 :: nat)) else c) str"

text \<open>
  Modelled from the spec: \<^verbatim>\<open>InZone\<close> is declared outside the source files. It is true iff
  the name equals the zone or is a strict subdomain of it, compared without case.
\<close>

definition spec_InZone :: "string \<Rightarrow> string \<Rightarrow> bool" where
  "spec_InZone zone name =
    (let z = ascii_lower zone; n = ascii_lower name
     in n = z \<or> (length z < length n \<and> drop (length n - length z - 1) n = CHR ''.'' # z))"

text \<open>
  Modelled from the spec: \<^verbatim>\<open>emailToDomain\<close> is declared outside the source files. It turns
  \<^verbatim>\<open>local@domain\<close> into the mailbox name \<^verbatim>\<open>local.domain.\<close>, escaping the dots of the local
  part.
\<close>

definition spec_emailToDomain :: "string \<Rightarrow> string" where
  "spec_emailToDomain addr =
    (let local = takeWhile (\<lambda>c. c \<noteq> CHR ''@'') addr;
         host = drop 1 (dropWhile (\<lambda>c. c \<noteq> CHR ''@'') addr);
         name = concat (map (\<lambda>c. if c = CHR ''.'' then [CHR 0x5C, c] else [c]) local) @ ''.'' @ host
     in if dns_IsFqdn name then name else name @ ''.'')"

text \<open>
  Modelled from the spec: \<^verbatim>\<open>durationToTime\<close> is declared outside the source files. The
  spec gives TTLs and SOA intervals as the zone's durations; on the wire they are whole
  seconds, here the duration's seconds rounded up.
\<close>

definition spec_durationToTime :: "Duration \<Rightarrow> 32 word" where
  "spec_durationToTime d = word_of_int (- ((- sint d) div 1000000000))"

text \<open>
  Modelled from the spec: \<^verbatim>\<open>Set.convert\<close> is declared outside the source files. Every
  record of the set becomes a resource record with the given owner name, the set's
  type, class IN and the TTL \<^verbatim>\<open>max(set.TTL, zone.MinTTL)\<close>.
\<close>

definition spec_convert :: "Set \<Rightarrow> Zone \<Rightarrow> string \<Rightarrow> RR list" where
  "spec_convert rrs zone owner =
    (let h = \<lparr> RR_Header.Name = owner, Rrtype = Type rrs, Class = dns_ClassINET,
               Ttl = spec_durationToTime
                       (if TTL rrs <s MinTTL zone then MinTTL zone else TTL rrs) \<rparr>
     in map (\<lambda>r. if Type rrs = MX then dns_MX h (word_of_int (Priority r)) (Address r)
                 else if Type rrs = dns_TypeNS then dns_NS h (Address r)
                 else if Type rrs = TXT then dns_RR h (Data r)
                 else dns_RR h [Address r])
          (Records rrs))"

text \<open>
  The zone data of the examples, as validated sets, and a lookup over them: the sets at
  the name with one of the asked types; \<open>hasOtherTypes\<close> when there is none but the
  name owns a set. (The engine's CNAME chasing, wildcards and referrals are not needed
  by the examples.)
\<close>

definition example_sets :: "Set list" where
  "example_sets =
    [ \<lparr> Set.Name = ''api.example.com.'', Type = TypeA,
        Records = [\<lparr> Address = ''1.2.3.4'', Priority = 0, Data = [] \<rparr>], TTL = 5 * Minute \<rparr>,
      \<lparr> Set.Name = ''example.com.'', Type = MX,
        Records = [\<lparr> Address = ''mail.example.com.'', Priority = 10, Data = [] \<rparr>],
        TTL = 5 * Minute \<rparr>,
      \<lparr> Set.Name = ''mail.example.com.'', Type = TypeA,
        Records = [\<lparr> Address = ''5.6.7.8'', Priority = 0, Data = [] \<rparr>], TTL = Hour \<rparr> ]"

definition example_Lookup :: "Zone \<Rightarrow> string \<Rightarrow> Type list \<Rightarrow> LookupResult list \<times> bool \<times> error option" where
  "example_Lookup zone name types =
    (if \<not> spec_InZone (Zone.Name zone) name then ([], False, None)
     else
       let hits = filter (\<lambda>rrs. Set.Name rrs = name \<and> Type rrs \<in> set types) example_sets
       in (map (\<lambda>rrs. \<lparr> LookupResult.Name = name, Set = rrs \<rparr>) hits,
           hits = [] \<and> list_ex (\<lambda>rrs. Set.Name rrs = name) example_sets,
           None))"

text \<open>
  The length of a message on the wire without name compression: 12 octets of header,
  each name with one octet more than its text, 4 octets of type and class for a
  question, 10 octets of fixed fields for a record, then the record's data.
\<close>

definition name_len :: "string \<Rightarrow> int" where
  "name_len n = (if n = ''.'' then 1 else int (length n) + 1)"

fun rr_len :: "RR \<Rightarrow> int" where
  "rr_len (dns_NS h ns) = name_len (RR_Header.Name h) + 10 + name_len ns"
| "rr_len (dns_SOA h ns mbox serial refresh retry expire minttl) =
    name_len (RR_Header.Name h) + 10 + name_len ns + name_len mbox + 20"
| "rr_len (dns_MX h preference mx) = name_len (RR_Header.Name h) + 10 + 2 + name_len mx"
| "rr_len (dns_OPT h) = name_len (RR_Header.Name h) + 10"
| "rr_len (dns_RR h rdata) =
    name_len (RR_Header.Name h) + 10 + sum_list (map (\<lambda>d. int (length d) + 1) rdata)"

definition wire_len :: "Msg \<Rightarrow> int" where
  "wire_len m =
    12 + sum_list (map (\<lambda>q. name_len (Question.Name q) + 4) (Question m))
       + sum_list (map rr_len (Answer m)) + sum_list (map rr_len (Ns m))
       + sum_list (map rr_len (Extra m))"

text \<open>
  The example environment. \<^verbatim>\<open>sort.Slice\<close> is the insertion sort Go runs on short
  slices; \<^verbatim>\<open>transferCase\<close> and \<^verbatim>\<open>dns.Name.String\<close> return their (second) argument as it
  is, which is what they do on names in lower case without special characters.
\<close>

definition example_Env :: Env where
  "example_Env =
    \<lparr> IsFqdn = dns_IsFqdn,
      IsDomain = spec_IsDomain,
      valid = spec_valid,
      Record_Validate = spec_Record_Validate,
      sort_Slice = insertionSort,
      Lookup = example_Lookup,
      convert = spec_convert,
      transferCase = (\<lambda>query canonical. canonical),
      InZone = spec_InZone,
      durationToTime = spec_durationToTime,
      emailToDomain = spec_emailToDomain,
      Name_String = (\<lambda>name. name),
      ToLower = ascii_lower,
      Len = wire_len \<rparr>"

text \<open>
  The example zone: only the name and the name servers are given, every other field
  is left at Go's zero value. The example server resolves every name within a zone to
  that zone and every other name to no zone.
\<close>

definition zone_example :: "string list \<Rightarrow> Zone" where
  "zone_example nss =
    \<lparr> Zone.Name = ''example.com.'', MasterNameServer = ''ns1.example.com.'',
      AllNameServers = nss, AdminEmail = '''',
      Refresh = 0, Retry = 0, Expire = 0, SOATTL = 0, NSTTL = 0, MinTTL = 0,
      Handler = None \<rparr>"

definition example_Server :: "Zone \<Rightarrow> Server" where
  "example_Server zone =
    NewServer \<lparr> BufferSize = 0,
                Handler = (\<lambda>name. if spec_InZone (Zone.Name zone) name then (Some zone, None)
                                   else (None, None)),
                Reporter = False \<rparr>"

definition example_writer :: "string \<Rightarrow> ResponseWriter" where
  "example_writer net =
    \<lparr> Network = net, WriteMsg_error = (\<lambda>m. None), Written = [], Closed = False,
      Reported = [] \<rparr>"

definition example_query :: "string \<Rightarrow> 16 word \<Rightarrow> RR list \<Rightarrow> Msg" where
  "example_query name qtype extra =
    new_Msg\<lparr>Msg.Id := 7, RecursionDesired := True,
            Question := [\<lparr> Question.Name = name, Qtype = qtype, Qclass = dns_ClassINET \<rparr>],
            Extra := extra\<rparr>"

text \<open>Records and sets for the examples.\<close>

definition example_record :: "string \<Rightarrow> int \<Rightarrow> string list \<Rightarrow> Record" where
  "example_record address priority strings =
    \<lparr> Address = address, Priority = priority, Data = strings \<rparr>"

definition example_set :: "Type \<Rightarrow> Record list \<Rightarrow> Duration \<Rightarrow> Set" where
  "example_set t rs ttl = \<lparr> Set.Name = ''example.com.'', Type = t, Records = rs, TTL = ttl \<rparr>"

definition example_zone :: Zone where
  "example_zone = zone_example [''ns1.example.com.'', ''ns2.example.com.'']"

definition example_zone_validated :: Zone where
  "example_zone_validated =
    example_zone\<lparr>AdminEmail := ''hostmaster@example.com.'', Refresh := 6 * Hour,
      Expire := 72 * Hour, SOATTL := 15 * Minute, NSTTL := 48 * Hour, MinTTL := 5 * Minute\<rparr>"

definition example_OPT :: "16 word \<Rightarrow> RR" where
  "example_OPT udpsize =
    dns_OPT \<lparr> RR_Header.Name = ''.'', Rrtype = dns_TypeOPT, Class = udpsize, Ttl = 0 \<rparr>"

definition example_reply :: "Msg \<Rightarrow> Msg" where
  "example_reply rq =
    (prepared_reply (example_Server example_zone) rq)
      \<lparr>Answer := [dns_RR \<lparr> RR_Header.Name = ''api.example.com.'', Rrtype = 1,
                             Class = dns_ClassINET, Ttl = 300 \<rparr> [''1.2.3.4'']]\<rparr>"

section \<open>Zone validation: theorems\<close>

lemma six_hours_nonzero: "6 * Hour \<noteq> 0"
  by (simp add: Hour_def Minute_def Second_def)

lemma Zone_Validate_unfold:
  "Zone_Validate fqdn z =
    (if \<not> fqdn (Zone.Name z) then (Some (Errorf ''name not fully qualified''), z)
     else if \<not> fqdn (MasterNameServer z) then
       (Some (Errorf ''master server not full qualified''), z)
     else if \<not> list_all fqdn (AllNameServers z) then
       (Some (Errorf ''additional name server not fully qualified''), z)
     else
       let z' = z\<lparr>AdminEmail := (if AdminEmail z = '''' then ''hostmaster@'' @ Zone.Name z else AdminEmail z),
                  Refresh := (if Refresh z = 0 then 6 * Hour else Refresh z),
                  Expire := (if Expire z = 0 then 72 * Hour else Expire z),
                  SOATTL := (if SOATTL z = 0 then 15 * Minute else SOATTL z),
                  NSTTL := (if NSTTL z = 0 then 48 * Hour else NSTTL z),
                  MinTTL := (if MinTTL z = 0 then 5 * Minute else MinTTL z)\<rparr>
       in if Refresh z' \<le>s Retry z' then (Some (Errorf ''retry must be less than refresh''), z')
          else if Expire z' <s Refresh z' + Retry z' then
            (Some (Errorf ''expire must be bigger than the sum of refresh and retry''), z')
          else (None, z'))"
proof -
  define z1 where "z1 = (if AdminEmail z = '''' then z\<lparr>AdminEmail := ''hostmaster@'' @ Zone.Name z\<rparr> else z)"
  define z2 where "z2 = (if Refresh z1 = 0 then z1\<lparr>Refresh := 6 * Hour\<rparr> else z1)"
  define z3 where "z3 = (if Refresh z2 = 0 then z2\<lparr>Retry := Hour\<rparr> else z2)"
  define z4 where "z4 = (if Expire z3 = 0 then z3\<lparr>Expire := 72 * Hour\<rparr> else z3)"
  define z5 where "z5 = (if SOATTL z4 = 0 then z4\<lparr>SOATTL := 15 * Minute\<rparr> else z4)"
  define z6 where "z6 = (if NSTTL z5 = 0 then z5\<lparr>NSTTL := 48 * Hour\<rparr> else z5)"
  define z7 where "z7 = (if MinTTL z6 = 0 then z6\<lparr>MinTTL := 5 * Minute\<rparr> else z6)"
  have chain: "Zone_Validate fqdn z =
    (if \<not> fqdn (Zone.Name z) then (Some (Errorf ''name not fully qualified''), z)
     else if \<not> fqdn (MasterNameServer z) then
       (Some (Errorf ''master server not full qualified''), z)
     else if \<not> list_all fqdn (AllNameServers z) then
       (Some (Errorf ''additional name server not fully qualified''), z)
     else if Refresh z7 \<le>s Retry z7 then (Some (Errorf ''retry must be less than refresh''), z7)
     else if Expire z7 <s Refresh z7 + Retry z7 then
       (Some (Errorf ''expire must be bigger than the sum of refresh and retry''), z7)
     else (None, z7))"
    unfolding Zone_Validate_def Let_def z7_def z6_def z5_def z4_def z3_def z2_def z1_def ..
  have e1: "z1 = z\<lparr>AdminEmail := (if AdminEmail z = '''' then ''hostmaster@'' @ Zone.Name z else AdminEmail z)\<rparr>"
    by (simp add: z1_def)
  have e2: "z2 = z1\<lparr>Refresh := (if Refresh z = 0 then 6 * Hour else Refresh z)\<rparr>"
    by (simp add: z2_def e1)
  have e3: "z3 = z2"
    by (simp add: z3_def e2 six_hours_nonzero)
  have e4: "z4 = z3\<lparr>Expire := (if Expire z = 0 then 72 * Hour else Expire z)\<rparr>"
    by (simp add: z4_def e3 e2 e1)
  have e5: "z5 = z4\<lparr>SOATTL := (if SOATTL z = 0 then 15 * Minute else SOATTL z)\<rparr>"
    by (simp add: z5_def e4 e3 e2 e1)
  have e6: "z6 = z5\<lparr>NSTTL := (if NSTTL z = 0 then 48 * Hour else NSTTL z)\<rparr>"
    by (simp add: z6_def e5 e4 e3 e2 e1)
  have e7: "z7 = z6\<lparr>MinTTL := (if MinTTL z = 0 then 5 * Minute else MinTTL z)\<rparr>"
    by (simp add: z7_def e6 e5 e4 e3 e2 e1)
  have z7: "z7 = z\<lparr>AdminEmail := (if AdminEmail z = '''' then ''hostmaster@'' @ Zone.Name z else AdminEmail z),
                  Refresh := (if Refresh z = 0 then 6 * Hour else Refresh z),
                  Expire := (if Expire z = 0 then 72 * Hour else Expire z),
                  SOATTL := (if SOATTL z = 0 then 15 * Minute else SOATTL z),
                  NSTTL := (if NSTTL z = 0 then 48 * Hour else NSTTL z),
                  MinTTL := (if MinTTL z = 0 then 5 * Minute else MinTTL z)\<rparr>"
    unfolding e7 e6 e5 e4 e3 e2 e1 ..
  show ?thesis
    unfolding chain Let_def z7 ..
qed


lemma Zone_Validate_keeps_Retry: "Retry (snd (Zone_Validate fqdn z)) = Retry z"
  by (simp add: Zone_Validate_unfold Let_def)

text \<open>
  Claim C1 (the documented default of \<^verbatim>\<open>Retry\<close> is 1h): on the zone that leaves
  \<^verbatim>\<open>Retry\<close> (and every other interval) unset, \<^verbatim>\<open>Validate\<close> returns nil and \<^verbatim>\<open>Retry\<close> is
  still 0 afterwards, not 1 hour: the default's guard tests \<^verbatim>\<open>Refresh\<close>, which the
  statement before it has just made non-zero.
\<close>

theorem C1_retry_default_not_applied:
  "Zone_Validate dns_IsFqdn (zone_example [''ns1.example.com.'']) =
     (None, (zone_example [''ns1.example.com.''])
        \<lparr>AdminEmail := ''hostmaster@example.com.'', Refresh := 6 * Hour,
         Expire := 72 * Hour, SOATTL := 15 * Minute, NSTTL := 48 * Hour,
         MinTTL := 5 * Minute\<rparr>)
   \<and> Retry (snd (Zone_Validate dns_IsFqdn (zone_example [''ns1.example.com.'']))) = 0
   \<and> Hour \<noteq> 0"
proof -
  have run: "Zone_Validate dns_IsFqdn (zone_example [''ns1.example.com.'']) =
     (None, (zone_example [''ns1.example.com.''])
        \<lparr>AdminEmail := ''hostmaster@example.com.'', Refresh := 6 * Hour,
         Expire := 72 * Hour, SOATTL := 15 * Minute, NSTTL := 48 * Hour,
         MinTTL := 5 * Minute\<rparr>)"
    unfolding Zone_Validate_def zone_example_def
    by (simp add: dns_IsFqdn_def Hour_def Minute_def Second_def word_sle_eq word_sless_alt)
  have "Retry (snd (Zone_Validate dns_IsFqdn (zone_example [''ns1.example.com.'']))) = 0"
    unfolding run by (simp add: zone_example_def)
  moreover have "Hour \<noteq> 0"
    by (simp add: Hour_def Minute_def Second_def)
  ultimately show ?thesis
    using run by simp
qed

text \<open>
  Claim C2, as the code has it: \<^verbatim>\<open>Validate\<close> returns an error when some entry of
  \<^verbatim>\<open>AllNameServers\<close> is not fully qualified, and it asks nothing else of the list: on
  the empty list it returns what it returns on any list of fully qualified names.
\<close>

theorem C2_name_servers_checked_entrywise:
  "((\<exists>ns \<in> set (AllNameServers z). \<not> fqdn ns) \<longrightarrow> fst (Zone_Validate fqdn z) \<noteq> None)
   \<and> (list_all fqdn nss \<longrightarrow>
        fst (Zone_Validate fqdn (z\<lparr>AllNameServers := []\<rparr>)) =
        fst (Zone_Validate fqdn (z\<lparr>AllNameServers := nss\<rparr>)))"
proof (intro conjI impI)
  assume "\<exists>ns \<in> set (AllNameServers z). \<not> fqdn ns"
  then have "\<not> list_all fqdn (AllNameServers z)"
    by (simp add: list_all_iff)
  then show "fst (Zone_Validate fqdn z) \<noteq> None"
    by (simp add: Zone_Validate_def)
next
  assume "list_all fqdn nss"
  then show "fst (Zone_Validate fqdn (z\<lparr>AllNameServers := []\<rparr>)) =
        fst (Zone_Validate fqdn (z\<lparr>AllNameServers := nss\<rparr>))"
    by (simp add: Zone_Validate_unfold Let_def)
qed

theorem C2_name_servers_checked_entrywise_witness:
  "(\<exists>ns \<in> set (AllNameServers (zone_example [''ns1.example.com''])). \<not> dns_IsFqdn ns)
   \<and> fst (Zone_Validate dns_IsFqdn (zone_example [''ns1.example.com''])) \<noteq> None
   \<and> list_all dns_IsFqdn [''ns1.example.com.'']
   \<and> fst (Zone_Validate dns_IsFqdn ((zone_example [])\<lparr>AllNameServers := []\<rparr>)) =
     fst (Zone_Validate dns_IsFqdn ((zone_example [])\<lparr>AllNameServers := [''ns1.example.com.'']\<rparr>))"
proof -
  have h1: "\<exists>ns \<in> set (AllNameServers (zone_example [''ns1.example.com''])). \<not> dns_IsFqdn ns"
    by (simp add: zone_example_def dns_IsFqdn_def)
  have h2: "list_all dns_IsFqdn [''ns1.example.com.'']"
    by (simp add: dns_IsFqdn_def)
  show ?thesis
    using h1 h2
      C2_name_servers_checked_entrywise [of "zone_example [''ns1.example.com'']" dns_IsFqdn
        "[''ns1.example.com.'']"]
      C2_name_servers_checked_entrywise [of "zone_example []" dns_IsFqdn "[''ns1.example.com.'']"]
    by blast
qed

text \<open>
  Claim C2 as stated fails: the example zone with no name server at all validates.
\<close>

theorem C2_empty_name_servers_accepted:
  "AllNameServers (zone_example []) = []
   \<and> fst (Zone_Validate dns_IsFqdn (zone_example [])) = None"
  unfolding Zone_Validate_def zone_example_def
  by (simp add: dns_IsFqdn_def Hour_def Minute_def Second_def word_sle_eq word_sless_alt)

section \<open>Set validation: theorems\<close>

lemma less_Records_sort_key: "less_Records t a b \<longleftrightarrow> sort_key t a < sort_key t b"
  by (simp add: less_Records_def sort_key_def)

lemma validate_records_None:
  "validate_records E t rs = None \<longleftrightarrow> (\<forall>r \<in> set rs. Record_Validate E r t = None)"
  by (induction rs) (auto split: option.splits)

lemma validate_records_perm:
  "mset rs1 = mset rs2 \<Longrightarrow> validate_records E t rs1 = None \<Longrightarrow> validate_records E t rs2 = None"
  by (metis validate_records_None mset_eq_setD)

lemma five_minutes_nonzero: "5 * Minute \<noteq> 0"
  by (simp add: Minute_def Second_def)

lemma Set_Validate_nil:
  "Set_Validate E s = Returns (None, s') \<longleftrightarrow>
     IsDomain E (Set.Name s) True \<and> valid E (Type s) \<and> Records s \<noteq> []
     \<and> \<not> (Type s = CNAME \<and> length (Records s) > 1)
     \<and> validate_records E (Type s) (Records s) = None
     \<and> \<not> (Type s = TXT \<and> 2 \<le> length (Records s) \<and> (\<exists>r \<in> set (Records s). Data r = []))
     \<and> s' = s\<lparr>Records := sort_Slice E (less_Records (Type s)) (Records s),
               TTL := (if TTL s = 0 then 5 * Minute else TTL s)\<rparr>"
  by (auto simp add: Set_Validate_def Let_def split: option.splits)

lemma sorts_by_sorted_keys:
  assumes "sorts_by srt (less_Records t)"
  shows "sorted (map (sort_key t) (srt (less_Records t) xs))"
    and "mset (srt (less_Records t) xs) = mset xs"
proof -
  from assms have "sorted_wrt (\<lambda>a b. \<not> less_Records t b a) (srt (less_Records t) xs)"
    by (simp add: sorts_by_def)
  then have "sorted_wrt (\<lambda>a b. sort_key t a \<le> sort_key t b) (srt (less_Records t) xs)"
    by (simp add: less_Records_sort_key not_less)
  then show "sorted (map (sort_key t) (srt (less_Records t) xs))"
    by (simp add: sorted_map)
  from assms show "mset (srt (less_Records t) xs) = mset xs"
    by (simp add: sorts_by_def)
qed

lemma sorted_same_mset_eq:
  fixes xs ys :: "string list"
  assumes "sorted xs" "sorted ys" "mset xs = mset ys"
  shows "xs = ys"
  using assms by (metis properties_for_sort sorted_sort_id)

lemma same_keys_distinct_eq:
  assumes "map f xs = map f ys" "mset xs = mset ys" "distinct (map f xs)"
  shows "xs = ys"
proof -
  have "inj_on f (set xs)" using assms(3) by (simp add: distinct_map)
  moreover have "set ys = set xs" using assms(2) by (metis mset_eq_setD)
  ultimately have "inj_on f (set xs \<union> set ys)" by simp
  then show ?thesis using assms(1) by (simp add: inj_on_map_eq_map)
qed

lemma mset_insert_left: "mset (insert_left lt x ys) = add_mset x (mset ys)"
  by (induction ys) auto

lemma mset_foldl_insert_left:
  "mset (foldl (\<lambda>front x. insert_left lt x front) acc xs) = mset acc + mset xs"
  by (induction xs arbitrary: acc) (auto simp: mset_insert_left)

lemma set_insert_left: "set (insert_left lt x ys) = insert x (set ys)"
  by (induction ys) auto

lemma sorted_insert_left:
  fixes k :: "'a \<Rightarrow> string"
  assumes "sorted_wrt (\<lambda>a b. k b \<le> k a) ys"
  shows "sorted_wrt (\<lambda>a b. k b \<le> k a) (insert_left (\<lambda>a b. k a < k b) x ys)"
  using assms
proof (induction ys)
  case Nil
  then show ?case by simp
next
  case (Cons y ys)
  show ?case
  proof (cases "k x < k y")
    case True
    with Cons show ?thesis
      by (auto simp: set_insert_left)
  next
    case False
    then have "k y \<le> k x" by simp
    with Cons.prems show ?thesis
      using False by (auto intro: order_trans)
  qed
qed

lemma sorted_foldl_insert_left:
  fixes k :: "'a \<Rightarrow> string"
  assumes "sorted_wrt (\<lambda>a b. k b \<le> k a) acc"
  shows "sorted_wrt (\<lambda>a b. k b \<le> k a) (foldl (\<lambda>front x. insert_left (\<lambda>a b. k a < k b) x front) acc xs)"
  using assms by (induction xs arbitrary: acc) (auto simp: sorted_insert_left)

lemma insertionSort_sorts_by: "sorts_by insertionSort (less_Records t)"
proof -
  have lt: "less_Records t = (\<lambda>a b. sort_key t a < sort_key t b)"
    by (intro ext) (rule less_Records_sort_key)
  have "sorted_wrt (\<lambda>a b. sort_key t a \<le> sort_key t b) (insertionSort (less_Records t) xs)" for xs
    unfolding insertionSort_def lt sorted_wrt_rev
    by (rule sorted_foldl_insert_left) simp
  moreover have "mset (insertionSort (less_Records t) xs) = mset xs" for xs
    by (simp add: insertionSort_def mset_foldl_insert_left)
  ultimately show ?thesis
    by (simp add: sorts_by_def less_Records_sort_key not_less)
qed

text \<open>
  Claim C6, as the code has it. Let \<^verbatim>\<open>sort.Slice\<close> keep its contract for the comparison of
  the set's type, and let \<^verbatim>\<open>Validate\<close> return nil on a set with records \<open>rs1\<close>. Then
  the records it leaves are a rearrangement of \<open>rs1\<close> in non-decreasing order of the
  key (TXT: first data string; MX: priority padded to five digits, a space, the
  address; every other type: the address). On every rearrangement \<open>rs2\<close> of the records
  \<^verbatim>\<open>Validate\<close> returns nil too and leaves the same sequence of keys, and validating the
  validated set again leaves the same sequence of keys. When the keys of the records
  are pairwise distinct, the resulting sets are equal and the second validation changes
  nothing. Records with equal keys are not ordered by the comparison.
\<close>

theorem C6_canonical_order_of_keys:
  assumes srt: "sorts_by (sort_Slice E) (less_Records (Type s))"
    and perm: "mset rs2 = mset rs1"
    and ok: "Set_Validate E (s\<lparr>Records := rs1\<rparr>) = Returns (None, s1)"
  shows "sorted (map (sort_key (Type s)) (Records s1)) \<and> mset (Records s1) = mset rs1
       \<and> (\<exists>s2. Set_Validate E (s\<lparr>Records := rs2\<rparr>) = Returns (None, s2)
            \<and> map (sort_key (Type s)) (Records s2) = map (sort_key (Type s)) (Records s1)
            \<and> (distinct (map (sort_key (Type s)) rs1) \<longrightarrow> s2 = s1))
       \<and> (\<exists>s1'. Set_Validate E s1 = Returns (None, s1')
            \<and> map (sort_key (Type s)) (Records s1') = map (sort_key (Type s)) (Records s1)
            \<and> (distinct (map (sort_key (Type s)) rs1) \<longrightarrow> s1' = s1))"
proof -
  let ?t = "Type s"
  let ?k = "sort_key ?t"
  let ?srt = "sort_Slice E (less_Records ?t)"
  let ?ttl = "if TTL s = 0 then 5 * Minute else TTL s"
  note sk = sorts_by_sorted_keys [OF srt]
  from ok have c: "IsDomain E (Set.Name s) True" "valid E ?t" "rs1 \<noteq> []"
      "\<not> (?t = CNAME \<and> length rs1 > 1)" "validate_records E ?t rs1 = None"
      "\<not> (?t = TXT \<and> 2 \<le> length rs1 \<and> (\<exists>r \<in> set rs1. Data r = []))"
    and s1: "s1 = s\<lparr>Records := ?srt rs1, TTL := ?ttl\<rparr>"
    by (simp_all add: Set_Validate_nil)
  have ttl: "?ttl \<noteq> 0"
    by (simp add: five_minutes_nonzero)
  have key_eq: "map ?k (?srt xs) = map ?k (?srt ys)" if "mset xs = mset ys" for xs ys
  proof (rule sorted_same_mset_eq)
    show "sorted (map ?k (?srt xs))" "sorted (map ?k (?srt ys))" by (rule sk)+
    show "mset (map ?k (?srt xs)) = mset (map ?k (?srt ys))"
      using that sk(2) by (metis mset_map)
  qed
  have rec_eq: "?srt xs = ?srt ys" if "mset xs = mset ys" "distinct (map ?k xs)" for xs ys
  proof (rule same_keys_distinct_eq)
    show "map ?k (?srt xs) = map ?k (?srt ys)" by (rule key_eq) (rule that)
    show "mset (?srt xs) = mset (?srt ys)" using that sk(2) by simp
    have "mset (map ?k (?srt xs)) = mset (map ?k xs)" using sk(2) by (metis mset_map)
    with that(2) show "distinct (map ?k (?srt xs))"
      by (metis mset_eq_imp_distinct_iff)
  qed
  have valid_perm: "Set_Validate E (s\<lparr>Records := xs\<rparr>) =
      Returns (None, s\<lparr>Records := ?srt xs, TTL := ?ttl\<rparr>)" if "mset xs = mset rs1" for xs
  proof -
    from that have len: "length xs = length rs1" and st: "set xs = set rs1"
      by (metis mset_eq_length, metis mset_eq_setD)
    from that c(5) have "validate_records E ?t xs = None"
      by (metis validate_records_perm)
    moreover from len c(3) have "xs \<noteq> []" by auto
    ultimately show ?thesis
      using c len st by (simp add: Set_Validate_nil)
  qed
  have A: "sorted (map ?k (Records s1))" "mset (Records s1) = mset rs1"
    using sk by (simp_all add: s1)
  have B: "\<exists>s2. Set_Validate E (s\<lparr>Records := rs2\<rparr>) = Returns (None, s2)
            \<and> map ?k (Records s2) = map ?k (Records s1)
            \<and> (distinct (map ?k rs1) \<longrightarrow> s2 = s1)"
  proof (intro exI conjI impI)
    show "Set_Validate E (s\<lparr>Records := rs2\<rparr>) =
        Returns (None, s\<lparr>Records := ?srt rs2, TTL := ?ttl\<rparr>)"
      by (rule valid_perm) (rule perm)
    show "map ?k (Records (s\<lparr>Records := ?srt rs2, TTL := ?ttl\<rparr>)) = map ?k (Records s1)"
      using key_eq [OF perm] by (simp add: s1)
    assume "distinct (map ?k rs1)"
    then show "s\<lparr>Records := ?srt rs2, TTL := ?ttl\<rparr> = s1"
      using rec_eq [of rs1 rs2] perm by (simp add: s1)
  qed
  have s1': "s1 = (s\<lparr>TTL := ?ttl\<rparr>)\<lparr>Records := ?srt rs1\<rparr>"
    by (simp add: s1)
  have again: "Set_Validate E s1 = Returns (None, s\<lparr>Records := ?srt (?srt rs1), TTL := ?ttl\<rparr>)"
  proof -
    have len: "length (?srt rs1) = length rs1" and st: "set (?srt rs1) = set rs1"
      using sk(2) by (metis mset_eq_length, metis mset_eq_setD)
    have "validate_records E ?t (?srt rs1) = None"
      using c(5) sk(2) by (metis validate_records_perm)
    moreover from len c(3) have "?srt rs1 \<noteq> []" by auto
    ultimately show ?thesis
      using c len st ttl by (simp add: Set_Validate_nil s1)
  qed
  have C: "\<exists>s1'. Set_Validate E s1 = Returns (None, s1')
            \<and> map ?k (Records s1') = map ?k (Records s1)
            \<and> (distinct (map ?k rs1) \<longrightarrow> s1' = s1)"
  proof (intro exI conjI impI)
    show "Set_Validate E s1 = Returns (None, s\<lparr>Records := ?srt (?srt rs1), TTL := ?ttl\<rparr>)"
      by (rule again)
    show "map ?k (Records (s\<lparr>Records := ?srt (?srt rs1), TTL := ?ttl\<rparr>)) = map ?k (Records s1)"
      using key_eq [of "?srt rs1" rs1] sk(2) by (simp add: s1)
    assume "distinct (map ?k rs1)"
    then show "s\<lparr>Records := ?srt (?srt rs1), TTL := ?ttl\<rparr> = s1"
      using rec_eq [of rs1 "?srt rs1"] sk(2) by (simp add: s1)
  qed
  from A B C show ?thesis by blast
qed

text \<open>
  The theorem at an MX set of two records given in descending order of priority, with
  the example environment's insertion sort: both orders of the records validate to the
  set with priority 5 first, and validating that set again returns it unchanged.
\<close>

theorem C6_canonical_order_of_keys_witness:
  "sorts_by (sort_Slice example_Env) (less_Records MX)
   \<and> mset [example_record ''mail1.example.com.'' 10 [], example_record ''mail2.example.com.'' 5 []]
     = mset [example_record ''mail2.example.com.'' 5 [], example_record ''mail1.example.com.'' 10 []]
   \<and> distinct (map (sort_key MX)
       [example_record ''mail2.example.com.'' 5 [], example_record ''mail1.example.com.'' 10 []])
   \<and> Set_Validate example_Env (example_set MX
       [example_record ''mail1.example.com.'' 10 [], example_record ''mail2.example.com.'' 5 []] 0)
     = Returns (None, example_set MX
       [example_record ''mail2.example.com.'' 5 [], example_record ''mail1.example.com.'' 10 []]
       (5 * Minute))
   \<and> Set_Validate example_Env (example_set MX
       [example_record ''mail2.example.com.'' 5 [], example_record ''mail1.example.com.'' 10 []] 0)
     = Returns (None, example_set MX
       [example_record ''mail2.example.com.'' 5 [], example_record ''mail1.example.com.'' 10 []]
       (5 * Minute))
   \<and> Set_Validate example_Env (example_set MX
       [example_record ''mail2.example.com.'' 5 [], example_record ''mail1.example.com.'' 10 []]
       (5 * Minute))
     = Returns (None, example_set MX
       [example_record ''mail2.example.com.'' 5 [], example_record ''mail1.example.com.'' 10 []]
       (5 * Minute))"
proof -
  let ?a = "example_record ''mail1.example.com.'' 10 []"
  let ?b = "example_record ''mail2.example.com.'' 5 []"
  let ?s1 = "example_set MX [?b, ?a] (5 * Minute)"
  have srt: "sorts_by (sort_Slice example_Env) (less_Records (Type (example_set MX [] 0)))"
    by (simp add: example_Env_def insertionSort_sorts_by)
  have perm: "mset [?a, ?b] = mset [?b, ?a]"
    by simp
  have ok: "Set_Validate example_Env ((example_set MX [] 0)\<lparr>Records := [?b, ?a]\<rparr>)
      = Returns (None, ?s1)"
    by code_simp
  have dist: "distinct (map (sort_key (Type (example_set MX [] 0))) [?b, ?a])"
    by code_simp
  have t: "Type (example_set MX [] 0) = MX"
    and r: "(example_set MX [] 0)\<lparr>Records := rs\<rparr> = example_set MX rs 0" for rs
    by (simp_all add: example_set_def)
  from C6_canonical_order_of_keys [OF srt perm ok] dist
  have "Set_Validate example_Env ((example_set MX [] 0)\<lparr>Records := [?a, ?b]\<rparr>) = Returns (None, ?s1)"
    and "Set_Validate example_Env ?s1 = Returns (None, ?s1)"
    by auto
  with srt perm ok dist show ?thesis
    unfolding t r by simp
qed

text \<open>
  Claim C6 as stated fails: the order after \<^verbatim>\<open>Validate\<close> is not determined by the set's
  contents alone. Two TXT records with the same first string and a different second
  string have equal keys; \<^verbatim>\<open>Validate\<close> returns nil on both orders of the two and leaves
  each order as it was given.
\<close>

theorem C6_ties_keep_input_order:
  "mset [example_record '''' 0 [''v=1'', ''a''], example_record '''' 0 [''v=1'', ''b'']]
     = mset [example_record '''' 0 [''v=1'', ''b''], example_record '''' 0 [''v=1'', ''a'']]
   \<and> Set_Validate example_Env (example_set TXT
        [example_record '''' 0 [''v=1'', ''a''], example_record '''' 0 [''v=1'', ''b'']] 0)
     = Returns (None, example_set TXT
        [example_record '''' 0 [''v=1'', ''a''], example_record '''' 0 [''v=1'', ''b'']]
        (5 * Minute))
   \<and> Set_Validate example_Env (example_set TXT
        [example_record '''' 0 [''v=1'', ''b''], example_record '''' 0 [''v=1'', ''a'']] 0)
     = Returns (None, example_set TXT
        [example_record '''' 0 [''v=1'', ''b''], example_record '''' 0 [''v=1'', ''a'']]
        (5 * Minute))
   \<and> [example_record '''' 0 [''v=1'', ''a''], example_record '''' 0 [''v=1'', ''b'']]
     \<noteq> [example_record '''' 0 [''v=1'', ''b''], example_record '''' 0 [''v=1'', ''a'']]"
  by code_simp

text \<open>
  Claim C10: whenever \<^verbatim>\<open>Set.Validate\<close> returns an error, the set is as it was before the
  call: the records are not reordered and the TTL default is not applied.
\<close>

theorem C10_error_leaves_set_unchanged:
  "Set_Validate E s = Returns (Some err, s') \<Longrightarrow> s' = s"
  by (auto simp: Set_Validate_def Let_def split: if_splits option.splits)

text \<open>
  The theorem at a TXT set with unsorted records, no TTL, and a last record without
  data: the error is the record's, wrapped, and the set is returned as it was given.
\<close>

theorem C10_error_leaves_set_unchanged_witness:
  "Set_Validate example_Env (example_set TXT
      [example_record '''' 0 [''b''], example_record '''' 0 [''a''], example_record '''' 0 []] 0)
   = Returns (Some (Wrap (Errorf ''missing data'') ''invalid record''), example_set TXT
      [example_record '''' 0 [''b''], example_record '''' 0 [''a''], example_record '''' 0 []] 0)"
proof -
  let ?s = "example_set TXT
      [example_record '''' 0 [''b''], example_record '''' 0 [''a''], example_record '''' 0 []] 0"
  have "case Set_Validate example_Env ?s of
          Returns (e, s') \<Rightarrow> e = Some (Wrap (Errorf ''missing data'') ''invalid record'')
        | Panics \<Rightarrow> False"
    by code_simp
  then obtain s' where run: "Set_Validate example_Env ?s
      = Returns (Some (Wrap (Errorf ''missing data'') ''invalid record''), s')"
    by (auto split: outcome.splits)
  from C10_error_leaves_set_unchanged [OF run] run show ?thesis
    by simp
qed

section \<open>The accept filter and the reply writers: theorems\<close>

lemma accept_bits:
  fixes w :: "16 word"
  shows "w AND push_bit 15 1 \<noteq> 0 \<longleftrightarrow> bit w 15"
    and "uint (drop_bit 11 w) AND 15 = uint w div 2 ^ 11 mod 2 ^ 4"
proof -
  show "w AND push_bit 15 1 \<noteq> 0 \<longleftrightarrow> bit w 15"
    by (simp add: bit_iff_and_push_bit_not_eq_0)
  have "take_bit 16 (uint w) = uint w"
    using uint_lt2p [of w] by (simp add: take_bit_int_eq_self)
  then have "uint (drop_bit 11 w) = drop_bit 11 (uint w)"
    by (simp add: unsigned_drop_bit_eq)
  then have "uint (drop_bit 11 w) AND 15 = take_bit 4 (drop_bit 11 (uint w))"
    by (simp add: take_bit_eq_mask mask_eq_exp_minus_1)
  then show "uint (drop_bit 11 w) AND 15 = uint w div 2 ^ 11 mod 2 ^ 4"
    by (simp add: take_bit_eq_mod drop_bit_eq_div)
qed

text \<open>
  Claim C7: the accept filter ignores a message (no reply is produced) exactly when its
  header has the response bit set, an opcode other than QUERY, or a question count other
  than 1; every other message is accepted.
\<close>

theorem C7_accept_filter:
  "accept dh =
    (if header_QR dh \<or> header_Opcode dh \<noteq> dns_OpcodeQuery \<or> Qdcount dh \<noteq> 1
     then MsgIgnore else MsgAccept)"
  unfolding accept_def header_QR_def header_Opcode_def accept_bits
  by simp

text \<open>
  The theorem at four headers: a plain query with one question is accepted; a response,
  a message with opcode 5 and a query with two questions are ignored.
\<close>

theorem C7_accept_filter_witness:
  "accept \<lparr> dns_Header.Id = 7, Bits = 0x0100, Qdcount = 1, Ancount = 0, Nscount = 0, Arcount = 0 \<rparr>
     = MsgAccept
   \<and> header_QR \<lparr> dns_Header.Id = 7, Bits = 0x8180, Qdcount = 1, Ancount = 0, Nscount = 0, Arcount = 0 \<rparr>
   \<and> accept \<lparr> dns_Header.Id = 7, Bits = 0x8180, Qdcount = 1, Ancount = 0, Nscount = 0, Arcount = 0 \<rparr>
     = MsgIgnore
   \<and> header_Opcode \<lparr> dns_Header.Id = 7, Bits = 0x2800, Qdcount = 1, Ancount = 0, Nscount = 0, Arcount = 0 \<rparr> = 5
   \<and> accept \<lparr> dns_Header.Id = 7, Bits = 0x2800, Qdcount = 1, Ancount = 0, Nscount = 0, Arcount = 0 \<rparr>
     = MsgIgnore
   \<and> accept \<lparr> dns_Header.Id = 7, Bits = 0x0100, Qdcount = 2, Ancount = 0, Nscount = 0, Arcount = 0 \<rparr>
     = MsgIgnore"
  using
    C7_accept_filter [of "\<lparr> dns_Header.Id = 7, Bits = 0x0100, Qdcount = 1, Ancount = 0, Nscount = 0, Arcount = 0 \<rparr>"]
    C7_accept_filter [of "\<lparr> dns_Header.Id = 7, Bits = 0x8180, Qdcount = 1, Ancount = 0, Nscount = 0, Arcount = 0 \<rparr>"]
    C7_accept_filter [of "\<lparr> dns_Header.Id = 7, Bits = 0x2800, Qdcount = 1, Ancount = 0, Nscount = 0, Arcount = 0 \<rparr>"]
    C7_accept_filter [of "\<lparr> dns_Header.Id = 7, Bits = 0x0100, Qdcount = 2, Ancount = 0, Nscount = 0, Arcount = 0 \<rparr>"]
  by (simp add: header_QR_def header_Opcode_def dns_OpcodeQuery_def)

lemma negotiated_buffer_IsEdns0:
  "negotiated_buffer rq = (case IsEdns0 rq of Some opt \<Rightarrow> uint (UDPSize opt) | None \<Rightarrow> 512)"
proof -
  have "find P (rev xs) = (if list_ex P xs then Some (last (filter P xs)) else None)"
    for P :: "RR \<Rightarrow> bool" and xs
    by (induction xs rule: rev_induct) (auto simp: list_ex_iff)
  then show ?thesis
    by (simp add: negotiated_buffer_def IsEdns0_def UDPSize_def)
qed

text \<open>
  \<open>writeError\<close> writes the reply with the given code as it is, whatever its length, and
  closes the connection.
\<close>

lemma writeError_writes_as_is:
  "writeError w rs code = w\<lparr>Written := Written w @ [rs\<lparr>Rcode := code\<rparr>], Closed := True\<rparr>"
  by (simp add: writeError_def WriteMsg_def Close_def)


text \<open>
  Claim C9: when \<open>writeMessage\<close> truncates a UDP reply, the message it writes carries the
  code NOERROR whatever code the reply carried; so does the reply of
  \<open>writeErrorWithSOA\<close>, whose code (such as NXDOMAIN) is set just before.
\<close>

theorem C9_truncated_reply_is_NOERROR:
  "(Network w = ''udp'' \<and> Len E (rs\<lparr>Rcode := code\<rparr>) > negotiated_buffer rq \<longrightarrow>
      (\<exists>m. Written (writeMessage E s w rq (rs\<lparr>Rcode := code\<rparr>)) = Written w @ [m]
          \<and> Truncated m \<and> Rcode m = dns_RcodeSuccess))
   \<and> (Network w = ''udp''
       \<and> Len E (rs'\<lparr>Rcode := code, Ns := Ns rs' @ [SOA_record E zone]\<rparr>) > negotiated_buffer rq'
      \<longrightarrow>
      (\<exists>m. Written (writeErrorWithSOA E s w rq' rs' zone code) = Written w @ [m]
          \<and> Truncated m \<and> Rcode m = dns_RcodeSuccess \<and> Ns m = []))"
  by (auto simp: writeErrorWithSOA_def writeMessage_def negotiated_buffer_IsEdns0 writeError_def
      WriteMsg_def Close_def Let_def split: option.splits)

section \<open>The query handler: theorems\<close>

lemma prepared_reply_fields:
  "Answer (prepared_reply s rq) = []"
  "Ns (prepared_reply s rq) = []"
  "Rcode (prepared_reply s rq) = dns_RcodeSuccess"
  "Authoritative (prepared_reply s rq)"
  "Response (prepared_reply s rq)"
  "\<not> Truncated (prepared_reply s rq)"
  "Msg.Id (prepared_reply s rq) = Msg.Id rq"
  by (simp_all add: prepared_reply_def SetReply_def new_Msg_def SetEdns0_def Let_def
      split: option.splits)


lemma handler_REFUSED:
  assumes "\<forall>opt. IsEdns0 rq = Some opt \<longrightarrow> Version opt = 0"
    and "Question rq = question # other"
    and "Qclass question = dns_ClassINET"
    and "Qtype question \<noteq> dns_TypeANY"
    and "Handler (config s) (ToLower E (Name_String E (Question.Name question))) = (None, None)"
  shows "handler E s w rq =
    Returns (writeError w ((prepared_reply s rq)\<lparr>Authoritative := False\<rparr>) dns_RcodeRefused)"
  using assms unfolding handler_def prepared_reply_def
  by (simp add: Let_def split: option.splits)




text \<open>
  Claim C8: when the handler reaches zone selection (the request's EDNS version, if any,
  is 0, its question has class IN and a type other than ANY) and the zone resolver
  returns no zone and no error, the handler writes exactly one message, with code
  REFUSED and the authoritative flag cleared, and closes the connection.
\<close>

theorem C8_no_zone_REFUSED:
  assumes "\<forall>opt. IsEdns0 rq = Some opt \<longrightarrow> Version opt = 0"
    and "Question rq = question # other"
    and "Qclass question = dns_ClassINET"
    and "Qtype question \<noteq> dns_TypeANY"
    and "Handler (config s) (ToLower E (Name_String E (Question.Name question))) = (None, None)"
  shows "\<exists>m. handler E s w rq = Returns (w\<lparr>Written := Written w @ [m], Closed := True\<rparr>)
           \<and> Rcode m = dns_RcodeRefused \<and> \<not> Authoritative m
           \<and> Response m \<and> Msg.Id m = Msg.Id rq \<and> Answer m = [] \<and> Ns m = []"
proof -
  let ?m = "(prepared_reply s rq)\<lparr>Authoritative := False, Rcode := dns_RcodeRefused\<rparr>"
  have "handler E s w rq = Returns (w\<lparr>Written := Written w @ [?m], Closed := True\<rparr>)"
    unfolding handler_REFUSED [OF assms]
    by (simp add: writeError_def WriteMsg_def Close_def)
  then show ?thesis
    by (intro exI [of _ ?m]) (simp add: prepared_reply_fields)
qed





section \<open>The theorems on the examples\<close>




text \<open>
  The theorem at two NXDOMAIN replies that exceed the 40 octets the request's OPT record
  allows: the written message is truncated and carries NOERROR.
\<close>

theorem C9_truncated_reply_is_NOERROR_witness:
  "Network (example_writer ''udp'') = ''udp''
   \<and> Len example_Env ((example_reply (example_query ''api.example.com.'' 1 [example_OPT 40]))
         \<lparr>Rcode := dns_RcodeNameError\<rparr>)
       > negotiated_buffer (example_query ''api.example.com.'' 1 [example_OPT 40])
   \<and> (\<exists>m. Written (writeMessage example_Env (example_Server example_zone) (example_writer ''udp'')
              (example_query ''api.example.com.'' 1 [example_OPT 40])
              ((example_reply (example_query ''api.example.com.'' 1 [example_OPT 40]))
                 \<lparr>Rcode := dns_RcodeNameError\<rparr>)) = [m]
          \<and> Truncated m \<and> Rcode m = dns_RcodeSuccess)
   \<and> Len example_Env
         ((prepared_reply (example_Server example_zone)
             (example_query ''nope.example.com.'' 1 [example_OPT 40]))
            \<lparr>Rcode := dns_RcodeNameError,
             Ns := Ns (prepared_reply (example_Server example_zone)
                        (example_query ''nope.example.com.'' 1 [example_OPT 40]))
                   @ [SOA_record example_Env example_zone_validated]\<rparr>)
       > negotiated_buffer (example_query ''nope.example.com.'' 1 [example_OPT 40])
   \<and> (\<exists>m. Written (writeErrorWithSOA example_Env (example_Server example_zone)
              (example_writer ''udp'') (example_query ''nope.example.com.'' 1 [example_OPT 40])
              (prepared_reply (example_Server example_zone)
                 (example_query ''nope.example.com.'' 1 [example_OPT 40]))
              example_zone_validated dns_RcodeNameError) = [m]
          \<and> Truncated m \<and> Rcode m = dns_RcodeSuccess \<and> Ns m = [])"
proof -
  let ?q40 = "example_query ''api.example.com.'' 1 [example_OPT 40]"
  let ?n40 = "example_query ''nope.example.com.'' 1 [example_OPT 40]"
  let ?s = "example_Server example_zone"
  have udp: "Network (example_writer ''udp'') = ''udp''"
    and none: "Written (example_writer ''udp'') = []"
    by (simp_all add: example_writer_def)
  have long1: "Len example_Env ((example_reply ?q40)\<lparr>Rcode := dns_RcodeNameError\<rparr>)
      > negotiated_buffer ?q40"
    by code_simp
  have long2: "Len example_Env ((prepared_reply ?s ?n40)
        \<lparr>Rcode := dns_RcodeNameError,
         Ns := Ns (prepared_reply ?s ?n40) @ [SOA_record example_Env example_zone_validated]\<rparr>)
      > negotiated_buffer ?n40"
    by code_simp
  show ?thesis
    using udp long1 long2
      C9_truncated_reply_is_NOERROR [where w = "example_writer ''udp''" and E = example_Env
        and rs = "example_reply ?q40" and code = dns_RcodeNameError and rq = ?q40
        and rs' = "prepared_reply ?s ?n40" and zone = example_zone_validated and rq' = ?n40
        and s = ?s]
    by (simp add: none)
qed

lemma example_resolver:
  "Handler (config (example_Server zone)) name =
    (if spec_InZone (Zone.Name zone) name then (Some zone, None) else (None, None))"
  by (simp add: example_Server_def NewServer_def)

lemma example_questions:
  "Question (example_query name qtype extra) =
     \<lparr> Question.Name = name, Qtype = qtype, Qclass = dns_ClassINET \<rparr> # []"
  by (simp add: example_query_def)

lemma example_no_edns: "\<forall>opt. IsEdns0 (example_query name qtype []) = Some opt \<longrightarrow> Version opt = 0"
  by (simp add: IsEdns0_def example_query_def new_Msg_def)

lemma example_Env_fields:
  "IsFqdn example_Env = dns_IsFqdn"
  "ToLower example_Env = ascii_lower"
  "Name_String example_Env = (\<lambda>name. name)"
  "valid example_Env = spec_valid"
  by (simp_all add: example_Env_def)

lemma example_zone_names:
  "Zone.Name example_zone = ''example.com.''"
  "Zone.Name example_zone_validated = ''example.com.''"
  by (simp_all add: example_zone_validated_def example_zone_def zone_example_def)

lemma example_writer_fields:
  "Network (example_writer net) = net"
  "Written (example_writer net) = []"
  by (simp_all add: example_writer_def)

text \<open>
  The theorem at the query \<^verbatim>\<open>example.org. A\<close>, which the example server has no zone for.
\<close>

theorem C8_no_zone_REFUSED_witness:
  "IsEdns0 (example_query ''example.org.'' 1 []) = None
   \<and> Question (example_query ''example.org.'' 1 []) =
       [\<lparr> Question.Name = ''example.org.'', Qtype = 1, Qclass = dns_ClassINET \<rparr>]
   \<and> (1 :: 16 word) \<noteq> dns_TypeANY
   \<and> Handler (config (example_Server example_zone))
        (ToLower example_Env (Name_String example_Env ''example.org.'')) = (None, None)
   \<and> (\<exists>m. handler example_Env (example_Server example_zone) (example_writer ''udp'')
              (example_query ''example.org.'' 1 [])
            = Returns ((example_writer ''udp'')\<lparr>Written := [m], Closed := True\<rparr>)
          \<and> Rcode m = dns_RcodeRefused \<and> \<not> Authoritative m)"
proof -
  let ?rq = "example_query ''example.org.'' 1 []"
  let ?q = "\<lparr> Question.Name = ''example.org.'', Qtype = 1, Qclass = dns_ClassINET \<rparr>"
  have edns: "IsEdns0 ?rq = None"
    by (simp add: IsEdns0_def example_query_def new_Msg_def)
  have cls: "Qclass ?q = dns_ClassINET" and any: "Qtype ?q \<noteq> dns_TypeANY"
    by (simp_all add: dns_TypeANY_def)
  have "\<not> spec_InZone ''example.com.'' (ascii_lower ''example.org.'')"
    by code_simp
  then have nil: "Handler (config (example_Server example_zone))
      (ToLower example_Env (Name_String example_Env (Question.Name ?q))) = (None, None)"
    by (simp add: example_resolver example_Env_fields example_zone_names)
  from C8_no_zone_REFUSED [OF example_no_edns example_questions cls any nil,
      of "example_writer ''udp''"]
  show ?thesis
    using edns any nil by (auto simp: example_writer_fields example_questions)
qed





end
